theory Spec2Isabelle
  imports Main "HOL-Library.Word"
begin

section \<open>Data model of \<open>src/crypto/PrivateKeyBundle.ts\<close>\<close>

text \<open>
  A \<open>Uint8Array\<close> is a list of bytes. Secret scalars, curve points and signatures are
  byte strings; the embedding keeps the key material and leaves timestamps out.
\<close>

type_synonym bytes = "8 word list"

text \<open>
  Every \<open>throw\<close> of the source is a value of \<open>error\<close>; the comment gives the message
  of the source's \<open>Error\<close>. \<open>TypeError\<close> is what JavaScript raises when a property of
  \<open>undefined\<close> is read. \<open>SignerFailure\<close>, \<open>DecryptFailure\<close> and \<open>ParseFailure\<close> are
  the failures of the collaborators that are not part of the file (a signer that
  rejects or is cancelled, an AEAD payload that does not authenticate, bytes that do
  not parse).
\<close>

datatype error =
    InvalidPeerBundle          \<comment> \<open>'invalid peer key bundle'\<close>
  | PreKeySignatureInvalid     \<comment> \<open>'peer preKey signature invalid'\<close>
  | MissingIdentityKey         \<comment> \<open>'missing identity key'\<close>
  | PreKeyNotFound             \<comment> \<open>'no matching pre-key found'\<close>
  | MissingPreKeys             \<comment> \<open>'missing pre-keys'\<close>
  | MissingWalletPreKey        \<comment> \<open>'missing wallet pre-key'\<close>
  | MissingCiphertext          \<comment> \<open>'missing bundle ciphertext'\<close>
  | TypeError
  | SignerFailure
  | DecryptFailure
  | ParseFailure

record PublicKey =
  point :: bytes
  signature :: "bytes option"

record PrivateKey =
  secret :: bytes
  publicKey :: PublicKey

text \<open>
  \<open>identityKey\<close> is declared as a \<open>PrivateKey\<close>, but \<open>sharedSecret\<close> and \<open>encode\<close> test
  \<open>!this.identityKey\<close>: the field can be \<open>undefined\<close> at run time, hence the option.
\<close>

record PrivateKeyBundle =
  identityKey :: "PrivateKey option"
  preKeys :: "PrivateKey list"

text \<open>
  The published bundle. The source tests \<open>!peer.identityKey || !peer.preKey\<close>, so both
  fields are optional. The fields carry the prefix \<open>pub_\<close> because \<open>identityKey\<close> is
  already the field of \<open>PrivateKeyBundle\<close>.
\<close>

record PublicKeyBundle =
  pub_identityKey :: "PublicKey option"
  pub_preKey :: "PublicKey option"

record Aes256gcmHkdfsha256 =
  hkdfSalt :: bytes
  gcmNonce :: bytes
  payload :: bytes

record Ciphertext =
  aes256GcmHkdfSha256 :: "Aes256gcmHkdfsha256 option"

record EncryptedPrivateKeyBundle =
  walletPreKey :: "bytes option"
  ciphertext :: "Ciphertext option"

text \<open>
  An \<open>ethers.Signer\<close>, as far as the file uses it: \<open>signMessage\<close>, which returns a hex
  string or rejects. A value of this type is the signer's behaviour at one call; a
  signer is deterministic when its behaviour is the same at every call.
\<close>

type_synonym Signer = "bytes \<Rightarrow> error + string"

subsection \<open>The collaborators that are imported by the file\<close>

text \<open>
  \<open>PrivateKey\<close>, \<open>PublicKey\<close>, \<open>encryption\<close>, \<open>utils\<close> and the generated \<open>proto\<close>
  module are imported by \<open>PrivateKeyBundle.ts\<close> and are not part of it. Their
  operations are parameters of the embedding:
  \<^item> \<open>PrivateKey_matches k p\<close> is \<open>k.matches(p)\<close>;
  \<^item> \<open>PrivateKey_sharedSecret k p\<close> is \<open>k.sharedSecret(p)\<close>, the Diffie-Hellman combine;
  \<^item> \<open>PrivateKey_signKey k p\<close> is \<open>k.signKey(p)\<close>: it returns \<open>p\<close> with the signature
    attached, or fails;
  \<^item> \<open>PublicKey_verifyKey i p\<close> is \<open>i.verifyKey(p)\<close>;
  \<^item> \<open>PublicKey_signWithWallet w p\<close> is \<open>p\<close> once \<open>p.signWithWallet(w)\<close> has settled.
\<close>

record Primitives =
  PrivateKey_matches :: "PrivateKey \<Rightarrow> PublicKey \<Rightarrow> bool"
  PrivateKey_sharedSecret :: "PrivateKey \<Rightarrow> PublicKey \<Rightarrow> bytes"
  PrivateKey_signKey :: "PrivateKey \<Rightarrow> PublicKey \<Rightarrow> error + PublicKey"
  PublicKey_verifyKey :: "PublicKey \<Rightarrow> PublicKey \<Rightarrow> bool"
  PublicKey_signWithWallet :: "Signer \<Rightarrow> PublicKey \<Rightarrow> PublicKey"

text \<open>
  The persistence collaborators: \<open>hexToBytes\<close>, \<open>encrypt\<close> and \<open>decrypt\<close> (with the
  nonce and salt \<open>encrypt\<close> draws fixed), the constructor \<open>new Ciphertext(...)\<close>, and
  the protobuf writers and readers of the two messages.
\<close>

record Codec =
  hexToBytes :: "string \<Rightarrow> bytes"
  encrypt :: "bytes \<Rightarrow> bytes \<Rightarrow> error + Ciphertext"
  decrypt :: "Ciphertext \<Rightarrow> bytes \<Rightarrow> error + bytes"
  Ciphertext_new :: "Ciphertext \<Rightarrow> error + Ciphertext"
  proto_PrivateKeyBundle_encode :: "PrivateKeyBundle \<Rightarrow> bytes"
  proto_PrivateKeyBundle_decode :: "bytes \<Rightarrow> error + PrivateKeyBundle"
  proto_EncryptedPrivateKeyBundle_encode :: "EncryptedPrivateKeyBundle \<Rightarrow> bytes"
  proto_EncryptedPrivateKeyBundle_decode :: "bytes \<Rightarrow> error + EncryptedPrivateKeyBundle"

section \<open>The operations of \<open>PrivateKeyBundle\<close>\<close>

text \<open>\<open>constructor(identityKey, preKeys?)\<close>: an omitted \<open>preKeys\<close> is the empty list.\<close>

definition PrivateKeyBundle_new ::
  "PrivateKey option \<Rightarrow> PrivateKey list option \<Rightarrow> PrivateKeyBundle" where
  "PrivateKeyBundle_new idk pks =
     \<lparr>identityKey = idk, preKeys = (case pks of None \<Rightarrow> [] | Some ks \<Rightarrow> ks)\<rparr>"

text \<open>
  \<open>new PrivateKey(protoKey)\<close>, used by \<open>decode\<close>: a new object with the key material
  of the message.
\<close>

definition PrivateKey_new :: "PrivateKey \<Rightarrow> PrivateKey" where
  "PrivateKey_new k = \<lparr>secret = secret k, publicKey = publicKey k\<rparr>"

text \<open>\<open>getCurrentPreKey\<close>: \<open>this.preKeys[0]\<close>, which is \<open>undefined\<close> on the empty list.\<close>

definition getCurrentPreKey :: "PrivateKeyBundle \<Rightarrow> PrivateKey option" where
  "getCurrentPreKey b = (case preKeys b of [] \<Rightarrow> None | k # _ \<Rightarrow> Some k)"

text \<open>\<open>findPreKey\<close>: the first pre-key that matches, or the error.\<close>

definition findPreKey :: "Primitives \<Rightarrow> PrivateKeyBundle \<Rightarrow> PublicKey \<Rightarrow> error + PrivateKey" where
  "findPreKey P b which =
     (case find (\<lambda>key. PrivateKey_matches P key which) (preKeys b) of
        None \<Rightarrow> Inl PreKeyNotFound
      | Some preKey \<Rightarrow> Inr preKey)"

text \<open>
  \<open>addPreKey\<close> mutates the bundle, so the model returns the outcome together with the
  bundle as the call leaves it. \<open>preKey\<close> is the key \<open>PrivateKey.generate()\<close> drew.
  Reading \<open>signKey\<close> of an absent identity key is a \<open>TypeError\<close>.
\<close>

definition addPreKey ::
  "Primitives \<Rightarrow> PrivateKey \<Rightarrow> PrivateKeyBundle \<Rightarrow> (error + unit) \<times> PrivateKeyBundle" where
  "addPreKey P preKey b =
     (case identityKey b of
        None \<Rightarrow> (Inl TypeError, b)
      | Some idk \<Rightarrow>
          (case PrivateKey_signKey P idk (publicKey preKey) of
             Inl e \<Rightarrow> (Inl e, b)
           | Inr signedKey \<Rightarrow>
               (Inr (), b\<lparr>preKeys := preKey\<lparr>publicKey := signedKey\<rparr> # preKeys b\<rparr>)))"

text \<open>
  \<open>generate(wallet?)\<close> calls \<open>identityKey.publicKey.signWithWallet(wallet)\<close> and does
  not await it: \<open>generate\<close> goes on while the wallet signs, and the signature is
  attached to the identity key whenever that call settles. \<open>Unawaited\<close> says how far
  the call has come: it is still pending (or has been rejected) when \<open>generate\<close>
  returns, it has settled before \<open>addPreKey\<close> has the identity key sign the pre-key,
  or it has settled after that and before \<open>generate\<close> returns.
\<close>

datatype Unawaited = StillPending | SettledBeforeSigning | SettledBeforeReturn

text \<open>
  \<open>idKey\<close> and \<open>preKey\<close> are the two keys drawn by \<open>PrivateKey.generate()\<close>. Since the
  call of \<open>signWithWallet\<close> is not awaited, it cannot abort \<open>generate\<close>, and the bundle
  is returned with the identity key unsigned when the call is still pending.
\<close>

definition generate ::
  "Primitives \<Rightarrow> Signer option \<Rightarrow> Unawaited \<Rightarrow> PrivateKey \<Rightarrow> PrivateKey
     \<Rightarrow> error + PrivateKeyBundle" where
  "generate P wallet u idKey preKey =
     (let settled =
            (case wallet of
               None \<Rightarrow> idKey
             | Some w \<Rightarrow> idKey\<lparr>publicKey := PublicKey_signWithWallet P w (publicKey idKey)\<rparr>);
          atSigning = (if u = SettledBeforeSigning then settled else idKey);
          atReturn = (if u = StillPending then idKey else settled);
          bundle = PrivateKeyBundle_new (Some atSigning) None
      in case addPreKey P preKey bundle of
           (Inl e, _) \<Rightarrow> Inl e
         | (Inr _, bundle') \<Rightarrow> Inr (bundle'\<lparr>identityKey := Some atReturn\<rparr>))"

text \<open>
  \<open>getPublicKeyBundle\<close>: \<open>this.identityKey.publicKey\<close> and
  \<open>this.getCurrentPreKey().publicKey\<close> are property reads, a \<open>TypeError\<close> on \<open>undefined\<close>.
\<close>

definition getPublicKeyBundle :: "PrivateKeyBundle \<Rightarrow> error + PublicKeyBundle" where
  "getPublicKeyBundle b =
     (case identityKey b of
        None \<Rightarrow> Inl TypeError
      | Some idk \<Rightarrow>
          (case getCurrentPreKey b of
             None \<Rightarrow> Inl TypeError
           | Some cur \<Rightarrow>
               Inr \<lparr>pub_identityKey = Some (publicKey idk), pub_preKey = Some (publicKey cur)\<rparr>))"

text \<open>
  \<open>sharedSecret(peer, recipientPreKey?)\<close>. The three tests come first, in the order of
  the source. On the sender's path \<open>dh1\<close> is computed before \<open>preKey.sharedSecret\<close> is
  read from a possibly \<open>undefined\<close> current pre-key. The result array is filled with
  \<open>dh1\<close>, \<open>dh2\<close>, \<open>dh3\<close> one after the other.
\<close>

definition sharedSecret ::
  "Primitives \<Rightarrow> PrivateKeyBundle \<Rightarrow> PublicKeyBundle \<Rightarrow> PublicKey option \<Rightarrow> error + bytes" where
  "sharedSecret P b peer recipientPreKey =
     (case pub_identityKey peer of
        None \<Rightarrow> Inl InvalidPeerBundle
      | Some peerIdentity \<Rightarrow>
     (case pub_preKey peer of
        None \<Rightarrow> Inl InvalidPeerBundle
      | Some peerPreKey \<Rightarrow>
          if \<not> PublicKey_verifyKey P peerIdentity peerPreKey then Inl PreKeySignatureInvalid
          else
     (case identityKey b of
        None \<Rightarrow> Inl MissingIdentityKey
      | Some idk \<Rightarrow>
     (case recipientPreKey of
        Some which \<Rightarrow>
          (case findPreKey P b which of
             Inl e \<Rightarrow> Inl e
           | Inr preKey \<Rightarrow>
               (let dh1 = PrivateKey_sharedSecret P preKey peerIdentity;
                    dh2 = PrivateKey_sharedSecret P idk peerPreKey;
                    dh3 = PrivateKey_sharedSecret P preKey peerPreKey
                in Inr (dh1 @ dh2 @ dh3)))
      | None \<Rightarrow>
          (case getCurrentPreKey b of
             None \<Rightarrow> Inl TypeError
           | Some preKey \<Rightarrow>
               (let dh1 = PrivateKey_sharedSecret P idk peerPreKey;
                    dh2 = PrivateKey_sharedSecret P preKey peerIdentity;
                    dh3 = PrivateKey_sharedSecret P preKey peerPreKey
                in Inr (dh1 @ dh2 @ dh3)))))))"

text \<open>
  \<open>encode(wallet)\<close>. \<open>wPreKey\<close> is the 32 bytes \<open>getRandomValues\<close> drew.
\<close>

definition encode :: "Codec \<Rightarrow> Signer \<Rightarrow> bytes \<Rightarrow> PrivateKeyBundle \<Rightarrow> error + bytes" where
  "encode C wallet wPreKey b =
     (if length (preKeys b) = 0 then Inl MissingPreKeys
      else
     (case identityKey b of
        None \<Rightarrow> Inl MissingIdentityKey
      | Some idk \<Rightarrow>
          (let bs = proto_PrivateKeyBundle_encode C \<lparr>identityKey = Some idk, preKeys = preKeys b\<rparr>
           in case wallet wPreKey of
                Inl e \<Rightarrow> Inl e
              | Inr sig \<Rightarrow>
                  (case encrypt C bs (hexToBytes C sig) of
                     Inl e \<Rightarrow> Inl e
                   | Inr ct \<Rightarrow>
                       Inr (proto_EncryptedPrivateKeyBundle_encode C
                              \<lparr>walletPreKey = Some wPreKey, ciphertext = Some ct\<rparr>)))))"

text \<open>\<open>decode(wallet, bytes)\<close>, with the checks and the calls in the order of the source.\<close>

definition decode :: "Codec \<Rightarrow> Signer \<Rightarrow> bytes \<Rightarrow> error + PrivateKeyBundle" where
  "decode C wallet bs =
     (case proto_EncryptedPrivateKeyBundle_decode C bs of
        Inl e \<Rightarrow> Inl e
      | Inr encrypted \<Rightarrow>
     (case walletPreKey encrypted of
        None \<Rightarrow> Inl MissingWalletPreKey
      | Some wPreKey \<Rightarrow>
     (case wallet wPreKey of
        Inl e \<Rightarrow> Inl e
      | Inr sig \<Rightarrow>
     (case ciphertext encrypted of
        None \<Rightarrow> Inl MissingCiphertext
      | Some ct \<Rightarrow>
     (case aes256GcmHkdfSha256 ct of
        None \<Rightarrow> Inl MissingCiphertext
      | Some _ \<Rightarrow>
     (case Ciphertext_new C ct of
        Inl e \<Rightarrow> Inl e
      | Inr ct' \<Rightarrow>
     (case decrypt C ct' (hexToBytes C sig) of
        Inl e \<Rightarrow> Inl e
      | Inr decrypted \<Rightarrow>
     (case proto_PrivateKeyBundle_decode C decrypted of
        Inl e \<Rightarrow> Inl e
      | Inr bundle \<Rightarrow>
     (case identityKey bundle of
        None \<Rightarrow> Inl MissingIdentityKey
      | Some idk \<Rightarrow>
          if length (preKeys bundle) = 0 then Inl MissingPreKeys
          else Inr (PrivateKeyBundle_new (Some (PrivateKey_new idk))
                      (Some (map PrivateKey_new (preKeys bundle)))))))))))))"

section \<open>Notions the properties are stated with\<close>


text \<open>The private keys a bundle holds.\<close>

definition keysOf :: "PrivateKeyBundle \<Rightarrow> PrivateKey set" where
  "keysOf b = (case identityKey b of None \<Rightarrow> {} | Some k \<Rightarrow> {k}) \<union> set (preKeys b)"

text \<open>
  The Diffie-Hellman combine is commutative on a set of keys: either side of a pair
  computes the same bytes from its own secret and the other's public half.
\<close>

definition dhCommutative :: "Primitives \<Rightarrow> PrivateKey set \<Rightarrow> bool" where
  "dhCommutative P S =
     (\<forall>a\<in>S. \<forall>b\<in>S.
        PrivateKey_sharedSecret P a (publicKey b) = PrivateKey_sharedSecret P b (publicKey a))"

text \<open>The signature of the advertised pre-key verifies against the identity key.\<close>

definition advertisedPreKeyVerifies :: "Primitives \<Rightarrow> PrivateKeyBundle \<Rightarrow> bool" where
  "advertisedPreKeyVerifies P b =
     (case identityKey b of
        None \<Rightarrow> False
      | Some idk \<Rightarrow>
          (case getCurrentPreKey b of
             None \<Rightarrow> False
           | Some cur \<Rightarrow> PublicKey_verifyKey P (publicKey idk) (publicKey cur)))"

text \<open>
  What the round trip of the persisted form needs from the collaborators: the AEAD
  decrypts, under the same secret, what it encrypted, and produces the recognised
  variant; the two protobuf readers read back what the writers wrote.
\<close>

definition aeadRoundTrip :: "Codec \<Rightarrow> bytes \<Rightarrow> bytes \<Rightarrow> bool" where
  "aeadRoundTrip C m s =
     (case encrypt C m s of
        Inl _ \<Rightarrow> False
      | Inr ct \<Rightarrow>
          aes256GcmHkdfSha256 ct \<noteq> None \<and>
          (case Ciphertext_new C ct of
             Inl _ \<Rightarrow> False
           | Inr ct' \<Rightarrow> decrypt C ct' s = Inr m))"

definition bundleRoundTrip :: "Codec \<Rightarrow> PrivateKeyBundle \<Rightarrow> bool" where
  "bundleRoundTrip C b =
     (proto_PrivateKeyBundle_decode C (proto_PrivateKeyBundle_encode C b) = Inr b)"

definition envelopeRoundTrip :: "Codec \<Rightarrow> EncryptedPrivateKeyBundle \<Rightarrow> bool" where
  "envelopeRoundTrip C e =
     (proto_EncryptedPrivateKeyBundle_decode C (proto_EncryptedPrivateKeyBundle_encode C e) = Inr e)"

section \<open>A small instance of the collaborators\<close>

text \<open>
  The properties below hold for every choice of the collaborators. To evaluate them at
  concrete inputs, this section fixes one: a Diffie-Hellman over the bytes with
  generator 3 (the public half of the scalar \<open>s\<close> is \<open>3 ^ s\<close>, the combine raises the
  peer's point to the own scalar), a signature that is the signer's point followed by
  the signed point, an AEAD that prefixes the payload with the secret and checks it,
  and fixed-width writers and readers for keys with one-byte scalars and points.
\<close>

definition toy_exponent :: "PrivateKey \<Rightarrow> nat" where
  "toy_exponent k = sum_list (map unat (secret k))"

definition toy_sharedSecret :: "PrivateKey \<Rightarrow> PublicKey \<Rightarrow> bytes" where
  "toy_sharedSecret k p = map (\<lambda>q. q ^ toy_exponent k) (point p)"

definition toy_matches :: "PrivateKey \<Rightarrow> PublicKey \<Rightarrow> bool" where
  "toy_matches k p = (point (publicKey k) = point p)"

definition toy_signKey :: "PrivateKey \<Rightarrow> PublicKey \<Rightarrow> error + PublicKey" where
  "toy_signKey k p = Inr (p\<lparr>signature := Some (point (publicKey k) @ point p)\<rparr>)"

definition toy_verifyKey :: "PublicKey \<Rightarrow> PublicKey \<Rightarrow> bool" where
  "toy_verifyKey i p = (signature p = Some (point i @ point p))"

definition toy :: Primitives where
  "toy = \<lparr>PrivateKey_matches = toy_matches,
          PrivateKey_sharedSecret = toy_sharedSecret,
          PrivateKey_signKey = toy_signKey,
          PublicKey_verifyKey = toy_verifyKey,
          PublicKey_signWithWallet = (\<lambda>w p. p)\<rparr>"

text \<open>The same instance with a signer that is cancelled.\<close>

definition toy_cancelled :: Primitives where
  "toy_cancelled = toy\<lparr>PrivateKey_signKey := (\<lambda>k p. Inl SignerFailure)\<rparr>"

text \<open>The key \<open>PrivateKey.generate()\<close> yields when it draws the scalar \<open>s\<close>.\<close>

definition toy_key :: "8 word \<Rightarrow> PrivateKey" where
  "toy_key s = \<lparr>secret = [s], publicKey = \<lparr>point = [3 ^ unat s], signature = None\<rparr>\<rparr>"

text \<open>Two generated bundles, as \<open>generate toy None StillPending\<close> returns them.\<close>

definition alice :: PrivateKeyBundle where
  "alice = \<lparr>identityKey = Some \<lparr>secret = [2], publicKey = \<lparr>point = [9], signature = None\<rparr>\<rparr>,
            preKeys = [\<lparr>secret = [5],
                        publicKey = \<lparr>point = [243], signature = Some [9, 243]\<rparr>\<rparr>]\<rparr>"

definition bob :: PrivateKeyBundle where
  "bob = \<lparr>identityKey = Some \<lparr>secret = [7], publicKey = \<lparr>point = [139], signature = None\<rparr>\<rparr>,
          preKeys = [\<lparr>secret = [11],
                      publicKey = \<lparr>point = [251], signature = Some [139, 251]\<rparr>\<rparr>]\<rparr>"

definition alicePublic :: PublicKeyBundle where
  "alicePublic = \<lparr>pub_identityKey = Some \<lparr>point = [9], signature = None\<rparr>,
                  pub_preKey = Some \<lparr>point = [243], signature = Some [9, 243]\<rparr>\<rparr>"

definition bobPublic :: PublicKeyBundle where
  "bobPublic = \<lparr>pub_identityKey = Some \<lparr>point = [139], signature = None\<rparr>,
                pub_preKey = Some \<lparr>point = [251], signature = Some [139, 251]\<rparr>\<rparr>"

text \<open>A signer that answers every message with the same hex string, and one that rejects.\<close>

definition toy_wallet :: Signer where
  "toy_wallet m = Inr ''0x2a''"

definition toy_wallet_rejects :: Signer where
  "toy_wallet_rejects m = Inl SignerFailure"

definition toy_hexToBytes :: "string \<Rightarrow> bytes" where
  "toy_hexToBytes s = map (\<lambda>c. of_nat (of_char c)) s"

definition toy_encrypt :: "bytes \<Rightarrow> bytes \<Rightarrow> error + Ciphertext" where
  "toy_encrypt m s =
     Inr \<lparr>aes256GcmHkdfSha256 = Some \<lparr>hkdfSalt = [], gcmNonce = [], payload = s @ m\<rparr>\<rparr>"

definition toy_decrypt :: "Ciphertext \<Rightarrow> bytes \<Rightarrow> error + bytes" where
  "toy_decrypt ct s =
     (case aes256GcmHkdfSha256 ct of
        None \<Rightarrow> Inl DecryptFailure
      | Some a \<Rightarrow>
          if take (length s) (payload a) = s then Inr (drop (length s) (payload a))
          else Inl DecryptFailure)"

definition toy_writeKey :: "PrivateKey \<Rightarrow> bytes" where
  "toy_writeKey k =
     (case (secret k, point (publicKey k), signature (publicKey k)) of
        ([s], [q], None) \<Rightarrow> [s, q, 0, 0, 0]
      | ([s], [q], Some [x, y]) \<Rightarrow> [s, q, 1, x, y]
      | _ \<Rightarrow> [])"

fun toy_readKeys :: "bytes \<Rightarrow> PrivateKey list" where
  "toy_readKeys (s # q # f # x # y # rest) =
     \<lparr>secret = [s], publicKey = \<lparr>point = [q], signature = (if f = 0 then None else Some [x, y])\<rparr>\<rparr>
       # toy_readKeys rest"
| "toy_readKeys _ = []"

definition toy_writeBundle :: "PrivateKeyBundle \<Rightarrow> bytes" where
  "toy_writeBundle b =
     (case identityKey b of None \<Rightarrow> [0] | Some k \<Rightarrow> 1 # toy_writeKey k)
       @ concat (map toy_writeKey (preKeys b))"

definition toy_readBundle :: "bytes \<Rightarrow> error + PrivateKeyBundle" where
  "toy_readBundle bs =
     (case bs of
        [] \<Rightarrow> Inl ParseFailure
      | f # rest \<Rightarrow>
          if f = 0 then Inr \<lparr>identityKey = None, preKeys = toy_readKeys rest\<rparr>
          else (case toy_readKeys rest of
                  [] \<Rightarrow> Inl ParseFailure
                | k # ks \<Rightarrow> Inr \<lparr>identityKey = Some k, preKeys = ks\<rparr>))"

definition toy_writeEnvelope :: "EncryptedPrivateKeyBundle \<Rightarrow> bytes" where
  "toy_writeEnvelope e =
     (case walletPreKey e of None \<Rightarrow> [0] | Some w \<Rightarrow> 1 # of_nat (length w) # w)
       @ (case ciphertext e of
            None \<Rightarrow> [0]
          | Some ct \<Rightarrow>
              (case aes256GcmHkdfSha256 ct of None \<Rightarrow> [1] | Some a \<Rightarrow> 2 # payload a))"

definition toy_readCiphertext :: "bytes \<Rightarrow> error + Ciphertext option" where
  "toy_readCiphertext bs =
     (case bs of
        [] \<Rightarrow> Inl ParseFailure
      | f # p \<Rightarrow>
          if f = 0 then Inr None
          else if f = 1 then Inr (Some \<lparr>aes256GcmHkdfSha256 = None\<rparr>)
          else Inr (Some \<lparr>aes256GcmHkdfSha256 =
                             Some \<lparr>hkdfSalt = [], gcmNonce = [], payload = p\<rparr>\<rparr>))"

definition toy_readEnvelope :: "bytes \<Rightarrow> error + EncryptedPrivateKeyBundle" where
  "toy_readEnvelope bs =
     (case bs of
        [] \<Rightarrow> Inl ParseFailure
      | f # rest \<Rightarrow>
          if f = 0 then
            (case toy_readCiphertext rest of
               Inl e \<Rightarrow> Inl e
             | Inr c \<Rightarrow> Inr \<lparr>walletPreKey = None, ciphertext = c\<rparr>)
          else
            (case rest of
               [] \<Rightarrow> Inl ParseFailure
             | n # rest' \<Rightarrow>
                 (case toy_readCiphertext (drop (unat n) rest') of
                    Inl e \<Rightarrow> Inl e
                  | Inr c \<Rightarrow> Inr \<lparr>walletPreKey = Some (take (unat n) rest'), ciphertext = c\<rparr>)))"

definition toy_codec :: Codec where
  "toy_codec = \<lparr>hexToBytes = toy_hexToBytes,
                encrypt = toy_encrypt,
                decrypt = toy_decrypt,
                Ciphertext_new = Inr,
                proto_PrivateKeyBundle_encode = toy_writeBundle,
                proto_PrivateKeyBundle_decode = toy_readBundle,
                proto_EncryptedPrivateKeyBundle_encode = toy_writeEnvelope,
                proto_EncryptedPrivateKeyBundle_decode = toy_readEnvelope\<rparr>"

text \<open>
  \<open>bob\<close> after two rotations that drew the scalars 13 and 17, an identity key with no
  pre-key yet (the constructor called with one argument), and a pre-key that \<open>bob\<close>
  does not hold.
\<close>

definition bobRotated :: PrivateKeyBundle where
  "bobRotated = bob\<lparr>preKeys :=
      [\<lparr>secret = [17], publicKey = \<lparr>point = [195], signature = Some [139, 195]\<rparr>\<rparr>,
       \<lparr>secret = [13], publicKey = \<lparr>point = [211], signature = Some [139, 211]\<rparr>\<rparr>,
       \<lparr>secret = [11], publicKey = \<lparr>point = [251], signature = Some [139, 251]\<rparr>\<rparr>]\<rparr>"

definition bobPreKeyPublic :: PublicKey where
  "bobPreKeyPublic = \<lparr>point = [251], signature = Some [139, 251]\<rparr>"

definition alicePreKeyPublic :: PublicKey where
  "alicePreKeyPublic = \<lparr>point = [243], signature = Some [9, 243]\<rparr>"

definition emptyBundle :: PrivateKeyBundle where
  "emptyBundle = PrivateKeyBundle_new (Some (toy_key 2)) None"

definition unknownPreKeyPublic :: PublicKey where
  "unknownPreKeyPublic = \<lparr>point = [77], signature = None\<rparr>"

text \<open>The bytes \<open>encode\<close> writes for \<open>alice\<close> with the wallet pre-key \<open>[1, 2, 3]\<close>.\<close>

definition aliceStored :: bytes where
  "aliceStored = [1, 3, 1, 2, 3, 2, 48, 120, 50, 97, 1, 2, 9, 0, 0, 0, 5, 243, 1, 9, 243]"

text \<open>
  \<open>bob\<close> after a rotation that drew the scalar 75, whose public half is the point of
  \<open>bob\<close>'s old pre-key (\<open>3 ^ 75 = 3 ^ 11\<close> in the bytes); \<open>bobRotated\<close> after two more
  rotations that drew 19 and 23; and the public half of the pre-key with the scalar 13,
  which is neither the oldest nor the current pre-key of \<open>bobRotated\<close>.
\<close>

definition bobCollided :: PrivateKeyBundle where
  "bobCollided = bob\<lparr>preKeys :=
      [\<lparr>secret = [75], publicKey = \<lparr>point = [251], signature = Some [139, 251]\<rparr>\<rparr>,
       \<lparr>secret = [11], publicKey = \<lparr>point = [251], signature = Some [139, 251]\<rparr>\<rparr>]\<rparr>"

definition bobRotatedAgain :: PrivateKeyBundle where
  "bobRotatedAgain = bob\<lparr>preKeys :=
      [\<lparr>secret = [23], publicKey = \<lparr>point = [75], signature = Some [139, 75]\<rparr>\<rparr>,
       \<lparr>secret = [19], publicKey = \<lparr>point = [219], signature = Some [139, 219]\<rparr>\<rparr>,
       \<lparr>secret = [17], publicKey = \<lparr>point = [195], signature = Some [139, 195]\<rparr>\<rparr>,
       \<lparr>secret = [13], publicKey = \<lparr>point = [211], signature = Some [139, 211]\<rparr>\<rparr>,
       \<lparr>secret = [11], publicKey = \<lparr>point = [251], signature = Some [139, 251]\<rparr>\<rparr>]\<rparr>"

definition middlePreKeyPublic :: PublicKey where
  "middlePreKeyPublic = \<lparr>point = [211], signature = Some [139, 211]\<rparr>"

section \<open>Facts about the operations\<close>

lemmas toy_defs = toy_def toy_key_def toy_signKey_def toy_verifyKey_def toy_matches_def
  toy_sharedSecret_def toy_exponent_def alice_def bob_def alicePublic_def bobPublic_def
  bobRotated_def bobPreKeyPublic_def alicePreKeyPublic_def emptyBundle_def
  unknownPreKeyPublic_def bobCollided_def bobRotatedAgain_def middlePreKeyPublic_def

lemmas toy_codec_defs = toy_codec_def toy_wallet_def toy_wallet_rejects_def toy_hexToBytes_def
  toy_encrypt_def toy_decrypt_def toy_writeEnvelope_def toy_readEnvelope_def
  toy_readCiphertext_def toy_writeBundle_def toy_readBundle_def toy_writeKey_def
  aliceStored_def

text \<open>A call of \<open>addPreKey\<close> that returns has put the signed key in front.\<close>

lemma addPreKey_Inr:
  assumes "addPreKey P k b = (Inr u, b')"
  shows "\<exists>idk s. identityKey b = Some idk \<and> PrivateKey_signKey P idk (publicKey k) = Inr s \<and>
           b' = b\<lparr>preKeys := k\<lparr>publicKey := s\<rparr> # preKeys b\<rparr>"
  using assms by (auto simp: addPreKey_def split: option.splits sum.splits)

text \<open>A call of \<open>addPreKey\<close> that throws has not touched the bundle.\<close>

lemma addPreKey_Inl:
  assumes "addPreKey P k b = (Inl e, b')"
  shows "b' = b"
  using assms by (auto simp: addPreKey_def split: option.splits sum.splits)

lemma generate_Inr:
  assumes "generate P wallet u idKey preKey = Inr b"
  shows "\<exists>idk cur. identityKey b = Some idk \<and> preKeys b = [cur]"
proof -
  let ?settled = "case wallet of None \<Rightarrow> idKey
      | Some w \<Rightarrow> idKey\<lparr>publicKey := PublicKey_signWithWallet P w (publicKey idKey)\<rparr>"
  let ?b0 = "PrivateKeyBundle_new
      (Some (if u = SettledBeforeSigning then ?settled else idKey)) None"
  let ?ret = "if u = StillPending then idKey else ?settled"
  obtain r b1 where step: "addPreKey P preKey ?b0 = (r, b1)"
    by (cases "addPreKey P preKey ?b0")
  with assms obtain v where r: "r = Inr v" and b1: "b = b1\<lparr>identityKey := Some ?ret\<rparr>"
    by (cases r) (auto simp: generate_def Let_def)
  from addPreKey_Inr[OF step[unfolded r]] b1 show ?thesis
    by (auto simp: PrivateKeyBundle_new_def)
qed





text \<open>\<open>new PrivateKey(protoKey)\<close> keeps the key material.\<close>

lemma PrivateKey_new_id: "PrivateKey_new k = k"
  by (simp add: PrivateKey_new_def)

lemma map_PrivateKey_new: "map PrivateKey_new ks = ks"
  by (induction ks) (simp_all add: PrivateKey_new_id)

text \<open>
  The sender's and the recipient's derivation agree for two bundles that each hold an
  identity key and a current pre-key, when the recipient names its own current
  pre-key.
\<close>

lemma sharedSecret_agree:
  assumes A: "identityKey A = Some ia" "preKeys A = ka # kas"
    and B: "identityKey B = Some ib" "preKeys B = kb # kbs"
    and vA: "PublicKey_verifyKey P (publicKey ia) (publicKey ka)"
    and vB: "PublicKey_verifyKey P (publicKey ib) (publicKey kb)"
    and own: "PrivateKey_matches P kb (publicKey kb)"
    and comm: "dhCommutative P (keysOf A \<union> keysOf B)"
  shows "\<exists>s. sharedSecret P A
             \<lparr>pub_identityKey = Some (publicKey ib), pub_preKey = Some (publicKey kb)\<rparr> None = Inr s \<and>
           sharedSecret P B
             \<lparr>pub_identityKey = Some (publicKey ia), pub_preKey = Some (publicKey ka)\<rparr>
             (Some (publicKey kb)) = Inr s"
proof -
  have mem: "ia \<in> keysOf A \<union> keysOf B" "ka \<in> keysOf A \<union> keysOf B"
    "ib \<in> keysOf A \<union> keysOf B" "kb \<in> keysOf A \<union> keysOf B"
    using A B by (simp_all add: keysOf_def)
  have c1: "PrivateKey_sharedSecret P ia (publicKey kb) = PrivateKey_sharedSecret P kb (publicKey ia)"
    using comm mem(1,4) unfolding dhCommutative_def by blast
  have c2: "PrivateKey_sharedSecret P ka (publicKey ib) = PrivateKey_sharedSecret P ib (publicKey ka)"
    using comm mem(2,3) unfolding dhCommutative_def by blast
  have c3: "PrivateKey_sharedSecret P ka (publicKey kb) = PrivateKey_sharedSecret P kb (publicKey ka)"
    using comm mem(2,4) unfolding dhCommutative_def by blast
  have f: "findPreKey P B (publicKey kb) = Inr kb"
    using B own by (simp add: findPreKey_def)
  have g: "getCurrentPreKey A = Some ka" using A by (simp add: getCurrentPreKey_def)
  show ?thesis
    using A(1) B(1) vA vB f g by (simp add: sharedSecret_def c1 c2 c3)
qed

section \<open>Generation and rotation\<close>

text \<open>
  C6. Whenever \<open>generate\<close> returns a bundle, its \<open>preKeys\<close> has exactly one element, and
  \<open>generate\<close> does return one when the identity key's \<open>signKey\<close> does not fail. Every
  call of \<open>addPreKey\<close> that returns has put the key it generated, with the signature
  attached, at index 0, has made the list one longer, and has left every key that was
  at index \<open>i\<close> at index \<open>i + 1\<close>; and the call returns whenever the identity key is
  present and signs.
\<close>

theorem generation_invariants:
  "(\<forall>b. generate P wallet u idKey preKey = Inr b \<longrightarrow> length (preKeys b) = 1) \<and>
   ((\<forall>k p. \<exists>s. PrivateKey_signKey P k p = Inr s) \<longrightarrow>
      (\<exists>b. generate P wallet u idKey preKey = Inr b)) \<and>
   (\<forall>b'. addPreKey P k b = (Inr (), b') \<longrightarrow>
      (\<exists>idk s. identityKey b = Some idk \<and> PrivateKey_signKey P idk (publicKey k) = Inr s \<and>
         preKeys b' ! 0 = k\<lparr>publicKey := s\<rparr>) \<and>
      length (preKeys b') = Suc (length (preKeys b)) \<and>
      (\<forall>i<length (preKeys b). preKeys b' ! Suc i = preKeys b ! i)) \<and>
   (\<forall>idk s. identityKey b = Some idk \<and> PrivateKey_signKey P idk (publicKey k) = Inr s \<longrightarrow>
      (\<exists>b'. addPreKey P k b = (Inr (), b')))"
proof (intro conjI allI impI)
  fix b0 assume "generate P wallet u idKey preKey = Inr b0"
  from generate_Inr[OF this] show "length (preKeys b0) = 1" by auto
next
  assume total: "\<forall>k p. \<exists>s. PrivateKey_signKey P k p = Inr s"
  let ?settled = "case wallet of None \<Rightarrow> idKey
      | Some w \<Rightarrow> idKey\<lparr>publicKey := PublicKey_signWithWallet P w (publicKey idKey)\<rparr>"
  let ?idk = "if u = SettledBeforeSigning then ?settled else idKey"
  from total obtain s where "PrivateKey_signKey P ?idk (publicKey preKey) = Inr s" by blast
  then show "\<exists>b. generate P wallet u idKey preKey = Inr b"
    by (simp add: generate_def addPreKey_def PrivateKeyBundle_new_def)
next
  fix b' assume a: "addPreKey P k b = (Inr (), b')"
  from addPreKey_Inr[OF a]
  show "\<exists>idk s. identityKey b = Some idk \<and> PrivateKey_signKey P idk (publicKey k) = Inr s \<and>
         preKeys b' ! 0 = k\<lparr>publicKey := s\<rparr>" by auto
  from addPreKey_Inr[OF a] show "length (preKeys b') = Suc (length (preKeys b))" by auto
  fix i assume "i < length (preKeys b)"
  from addPreKey_Inr[OF a] show "preKeys b' ! Suc i = preKeys b ! i" by auto
next
  fix idk s
  assume "identityKey b = Some idk \<and> PrivateKey_signKey P idk (publicKey k) = Inr s"
  then show "\<exists>b'. addPreKey P k b = (Inr (), b')" by (simp add: addPreKey_def)
qed

theorem generation_invariants_witness:
  "generate toy None StillPending (toy_key 7) (toy_key 11) = Inr bob \<and> length (preKeys bob) = 1 \<and>
   addPreKey toy (toy_key 13) bob =
     (Inr (), bob\<lparr>preKeys := toy_key 13\<lparr>publicKey := \<lparr>point = [211], signature = Some [139, 211]\<rparr>\<rparr>
                               # preKeys bob\<rparr>) \<and>
   length (preKeys (bob\<lparr>preKeys := toy_key 13\<lparr>publicKey := \<lparr>point = [211], signature = Some [139, 211]\<rparr>\<rparr>
                               # preKeys bob\<rparr>)) = 2"
proof -
  have g: "generate toy None StillPending (toy_key 7) (toy_key 11) = Inr bob"
    by (simp add: generate_def addPreKey_def PrivateKeyBundle_new_def toy_defs)
  have a: "addPreKey toy (toy_key 13) bob =
     (Inr (), bob\<lparr>preKeys := toy_key 13\<lparr>publicKey := \<lparr>point = [211], signature = Some [139, 211]\<rparr>\<rparr>
                               # preKeys bob\<rparr>)"
    by (simp add: addPreKey_def toy_defs)
  from generation_invariants[where P = toy and wallet = None and u = StillPending
      and idKey = "toy_key 7" and preKey = "toy_key 11" and k = "toy_key 13" and b = bob] g a
  show ?thesis by simp
qed

text \<open>
  C9. \<open>addPreKey\<close> commits last: when the identity key's signing of the new pre-key
  fails or is cancelled, the call fails with that error and the bundle is the one
  before the call; more generally, whatever makes the call fail, the bundle is
  unchanged.
\<close>

theorem addPreKey_failure_leaves_bundle:
  "(\<forall>idk e. identityKey b = Some idk \<and> PrivateKey_signKey P idk (publicKey k) = Inl e \<longrightarrow>
      addPreKey P k b = (Inl e, b)) \<and>
   (\<forall>e. fst (addPreKey P k b) = Inl e \<longrightarrow> snd (addPreKey P k b) = b)"
proof (intro conjI allI impI)
  fix idk e
  assume "identityKey b = Some idk \<and> PrivateKey_signKey P idk (publicKey k) = Inl e"
  then show "addPreKey P k b = (Inl e, b)" by (simp add: addPreKey_def)
next
  fix e assume "fst (addPreKey P k b) = Inl e"
  then have "addPreKey P k b = (Inl e, snd (addPreKey P k b))"
    by (metis prod.collapse)
  from addPreKey_Inl[OF this] show "snd (addPreKey P k b) = b" .
qed

theorem addPreKey_failure_leaves_bundle_witness:
  "identityKey bob = Some \<lparr>secret = [7], publicKey = \<lparr>point = [139], signature = None\<rparr>\<rparr> \<and>
   PrivateKey_signKey toy_cancelled \<lparr>secret = [7], publicKey = \<lparr>point = [139], signature = None\<rparr>\<rparr>
     (publicKey (toy_key 13)) = Inl SignerFailure \<and>
   addPreKey toy_cancelled (toy_key 13) bob = (Inl SignerFailure, bob) \<and>
   preKeys (snd (addPreKey toy_cancelled (toy_key 13) bob)) = preKeys bob"
proof -
  have h: "identityKey bob = Some \<lparr>secret = [7], publicKey = \<lparr>point = [139], signature = None\<rparr>\<rparr> \<and>
    PrivateKey_signKey toy_cancelled \<lparr>secret = [7], publicKey = \<lparr>point = [139], signature = None\<rparr>\<rparr>
     (publicKey (toy_key 13)) = Inl SignerFailure"
    by (simp add: toy_cancelled_def toy_defs)
  from addPreKey_failure_leaves_bundle[of bob toy_cancelled "toy_key 13"] h
  have "addPreKey toy_cancelled (toy_key 13) bob = (Inl SignerFailure, bob)" by blast
  with h show ?thesis by simp
qed




section \<open>The empty pre-key list\<close>

text \<open>
  C10, as the claim states it, fails: on a bundle built by the constructor with no
  \<open>preKeys\<close> argument, \<open>getPublicKeyBundle\<close> builds no \<open>PublicKeyBundle\<close>; reading
  \<open>publicKey\<close> of the \<open>undefined\<close> current pre-key raises a \<open>TypeError\<close>.
\<close>

theorem empty_bundle_counterexample:
  "preKeys emptyBundle = [] \<and> getPublicKeyBundle emptyBundle = Inl TypeError"
  by (simp add: emptyBundle_def PrivateKeyBundle_new_def getPublicKeyBundle_def
      getCurrentPreKey_def)

text \<open>
  C10, amended. The constructor with \<open>preKeys\<close> omitted builds a bundle with the empty
  list; on every bundle with the empty list \<open>getCurrentPreKey\<close> returns \<open>undefined\<close>
  without raising, and \<open>getPublicKeyBundle\<close> raises a \<open>TypeError\<close>: it neither builds a
  \<open>PublicKeyBundle\<close> nor signals an error of its own for the corrupted bundle.
\<close>

theorem empty_bundle_behaviour:
  "preKeys (PrivateKeyBundle_new idk None) = [] \<and>
   (preKeys b = [] \<longrightarrow> getCurrentPreKey b = None \<and> getPublicKeyBundle b = Inl TypeError)"
  by (simp add: PrivateKeyBundle_new_def getPublicKeyBundle_def getCurrentPreKey_def
      split: option.splits)

theorem empty_bundle_behaviour_witness:
  "preKeys emptyBundle = [] \<and> getCurrentPreKey emptyBundle = None \<and>
   getPublicKeyBundle emptyBundle = Inl TypeError"
proof -
  have h: "preKeys emptyBundle = []" by (simp add: emptyBundle_def PrivateKeyBundle_new_def)
  from empty_bundle_behaviour[of "Some (toy_key 2)" emptyBundle] h show ?thesis by blast
qed

section \<open>Key agreement\<close>

text \<open>
  C3. \<open>sharedSecret\<close> checks in a fixed order, and the outcome of a failed check does
  not depend on the Diffie-Hellman combine \<open>dh\<close>: a peer bundle that lacks the identity
  key or the pre-key gives \<open>InvalidPeerBundle\<close>; otherwise a pre-key signature that
  does not verify against the peer's identity key gives \<open>PreKeySignatureInvalid\<close>;
  otherwise an absent local identity key gives \<open>MissingIdentityKey\<close>. A secret is
  returned only when all three checks pass.
\<close>

theorem sharedSecret_validation_order:
  "((pub_identityKey peer = None \<or> pub_preKey peer = None) \<longrightarrow>
      sharedSecret (P\<lparr>PrivateKey_sharedSecret := dh\<rparr>) b peer r = Inl InvalidPeerBundle) \<and>
   (\<forall>pi pp. pub_identityKey peer = Some pi \<and> pub_preKey peer = Some pp \<and>
        \<not> PublicKey_verifyKey P pi pp \<longrightarrow>
      sharedSecret (P\<lparr>PrivateKey_sharedSecret := dh\<rparr>) b peer r = Inl PreKeySignatureInvalid) \<and>
   (\<forall>pi pp. pub_identityKey peer = Some pi \<and> pub_preKey peer = Some pp \<and>
        PublicKey_verifyKey P pi pp \<and> identityKey b = None \<longrightarrow>
      sharedSecret (P\<lparr>PrivateKey_sharedSecret := dh\<rparr>) b peer r = Inl MissingIdentityKey) \<and>
   (\<forall>s. sharedSecret P b peer r = Inr s \<longrightarrow>
      (\<exists>pi pp idk. pub_identityKey peer = Some pi \<and> pub_preKey peer = Some pp \<and>
         PublicKey_verifyKey P pi pp \<and> identityKey b = Some idk))"
  by (auto simp: sharedSecret_def split: option.splits if_splits)

theorem sharedSecret_validation_order_witness:
  "sharedSecret (toy\<lparr>PrivateKey_sharedSecret := (\<lambda>k p. [])\<rparr>) (bob\<lparr>identityKey := None\<rparr>)
     (alicePublic\<lparr>pub_preKey := None\<rparr>) None = Inl InvalidPeerBundle \<and>
   sharedSecret (toy\<lparr>PrivateKey_sharedSecret := (\<lambda>k p. [])\<rparr>) (bob\<lparr>identityKey := None\<rparr>)
     (alicePublic\<lparr>pub_preKey := Some unknownPreKeyPublic\<rparr>) None = Inl PreKeySignatureInvalid \<and>
   sharedSecret (toy\<lparr>PrivateKey_sharedSecret := (\<lambda>k p. [])\<rparr>) (bob\<lparr>identityKey := None\<rparr>)
     alicePublic None = Inl MissingIdentityKey \<and>
   sharedSecret toy bob alicePublic (Some bobPreKeyPublic) = Inr [25, 155, 203] \<and>
   PublicKey_verifyKey toy \<lparr>point = [9], signature = None\<rparr> alicePreKeyPublic"
proof -
  let ?P = toy and ?dh = "\<lambda>(k::PrivateKey) (p::PublicKey). []::bytes" and ?b = "bob\<lparr>identityKey := None\<rparr>"
  have 1: "pub_identityKey (alicePublic\<lparr>pub_preKey := None\<rparr>) = None \<or>
           pub_preKey (alicePublic\<lparr>pub_preKey := None\<rparr>) = None" by simp
  have 2: "pub_identityKey (alicePublic\<lparr>pub_preKey := Some unknownPreKeyPublic\<rparr>)
             = Some \<lparr>point = [9], signature = None\<rparr> \<and>
           pub_preKey (alicePublic\<lparr>pub_preKey := Some unknownPreKeyPublic\<rparr>)
             = Some unknownPreKeyPublic \<and>
           \<not> PublicKey_verifyKey toy \<lparr>point = [9], signature = None\<rparr> unknownPreKeyPublic"
    by (simp add: toy_defs)
  have 3: "pub_identityKey alicePublic = Some \<lparr>point = [9], signature = None\<rparr> \<and>
           pub_preKey alicePublic = Some alicePreKeyPublic \<and>
           PublicKey_verifyKey toy \<lparr>point = [9], signature = None\<rparr> alicePreKeyPublic \<and>
           identityKey ?b = None"
    by (simp add: toy_defs)
  have 4: "sharedSecret toy bob alicePublic (Some bobPreKeyPublic) = Inr [25, 155, 203]"
    by (simp add: sharedSecret_def findPreKey_def toy_defs)
  from sharedSecret_validation_order[where peer = "alicePublic\<lparr>pub_preKey := None\<rparr>" and P = ?P and dh = ?dh and b = ?b and r = None] 1
  have a: "sharedSecret (?P\<lparr>PrivateKey_sharedSecret := ?dh\<rparr>) ?b
     (alicePublic\<lparr>pub_preKey := None\<rparr>) None = Inl InvalidPeerBundle" by blast
  from sharedSecret_validation_order[where peer = "alicePublic\<lparr>pub_preKey := Some unknownPreKeyPublic\<rparr>" and P = ?P and dh = ?dh and b = ?b and r = None] 2
  have b: "sharedSecret (?P\<lparr>PrivateKey_sharedSecret := ?dh\<rparr>) ?b
     (alicePublic\<lparr>pub_preKey := Some unknownPreKeyPublic\<rparr>) None = Inl PreKeySignatureInvalid" by blast
  from sharedSecret_validation_order[where peer = alicePublic and P = ?P and dh = ?dh and b = ?b and r = None] 3
  have c: "sharedSecret (?P\<lparr>PrivateKey_sharedSecret := ?dh\<rparr>) ?b alicePublic None
     = Inl MissingIdentityKey" by blast
  from sharedSecret_validation_order[where peer = alicePublic and P = toy and b = bob and r = "Some bobPreKeyPublic"] 4
  have d: "PublicKey_verifyKey toy \<lparr>point = [9], signature = None\<rparr> alicePreKeyPublic"
    by (auto simp: alicePublic_def alicePreKeyPublic_def)
  from a b c d 4 show ?thesis by simp
qed

text \<open>
  C2, as the claim states it, fails: a call can pass the three validation checks and
  still return no concatenation, because \<open>findPreKey\<close> throws when the bundle holds no
  pre-key that matches \<open>recipientPreKey\<close>.
\<close>

theorem sharedSecret_after_validation_counterexample:
  "pub_identityKey alicePublic = Some \<lparr>point = [9], signature = None\<rparr> \<and>
   pub_preKey alicePublic = Some alicePreKeyPublic \<and>
   PublicKey_verifyKey toy \<lparr>point = [9], signature = None\<rparr> alicePreKeyPublic \<and>
   identityKey bob = Some (toy_key 7) \<and>
   sharedSecret toy bob alicePublic (Some unknownPreKeyPublic) = Inl PreKeyNotFound"
  by (simp add: sharedSecret_def findPreKey_def toy_defs)

text \<open>
  C2, amended. For every call that passes validation and whose local pre-key selection
  succeeds, the result is \<open>dh1 @ dh2 @ dh3\<close>: for the sender (no \<open>recipientPreKey\<close>, a
  current pre-key exists) \<open>dh1\<close> is the local identity key with the peer's pre-key and
  \<open>dh2\<close> the local current pre-key with the peer's identity key; for the recipient
  (\<open>findPreKey\<close> finds the named pre-key) \<open>dh1\<close> is the selected pre-key with the peer's
  identity key and \<open>dh2\<close> the local identity key with the peer's pre-key; \<open>dh3\<close> is the
  selected pre-key with the peer's pre-key in both roles. When \<open>findPreKey\<close> fails, its
  error is the result.
\<close>

theorem sharedSecret_concatenation:
  assumes "pub_identityKey peer = Some peerIdentity" and "pub_preKey peer = Some peerPreKey"
    and "PublicKey_verifyKey P peerIdentity peerPreKey"
    and "identityKey b = Some idk"
  shows "(\<forall>cur. getCurrentPreKey b = Some cur \<longrightarrow>
            sharedSecret P b peer None =
              Inr (PrivateKey_sharedSecret P idk peerPreKey @
                   PrivateKey_sharedSecret P cur peerIdentity @
                   PrivateKey_sharedSecret P cur peerPreKey)) \<and>
         (\<forall>which sel. findPreKey P b which = Inr sel \<longrightarrow>
            sharedSecret P b peer (Some which) =
              Inr (PrivateKey_sharedSecret P sel peerIdentity @
                   PrivateKey_sharedSecret P idk peerPreKey @
                   PrivateKey_sharedSecret P sel peerPreKey)) \<and>
         (\<forall>which e. findPreKey P b which = Inl e \<longrightarrow>
            sharedSecret P b peer (Some which) = Inl e)"
  using assms by (simp add: sharedSecret_def)

theorem sharedSecret_concatenation_witness:
  "sharedSecret toy alice bobPublic None = Inr ([25] @ [155] @ [203]) \<and>
   sharedSecret toy bob alicePublic (Some bobPreKeyPublic) = Inr ([25] @ [155] @ [203]) \<and>
   PrivateKey_sharedSecret toy (toy_key 2) bobPreKeyPublic = [25]"
proof -
  have a: "pub_identityKey bobPublic = Some \<lparr>point = [139], signature = None\<rparr>"
    "pub_preKey bobPublic = Some bobPreKeyPublic"
    "PublicKey_verifyKey toy \<lparr>point = [139], signature = None\<rparr> bobPreKeyPublic"
    "identityKey alice = Some (toy_key 2)"
    "getCurrentPreKey alice = Some \<lparr>secret = [5], publicKey = alicePreKeyPublic\<rparr>"
    by (simp_all add: getCurrentPreKey_def toy_defs)
  have b: "pub_identityKey alicePublic = Some \<lparr>point = [9], signature = None\<rparr>"
    "pub_preKey alicePublic = Some alicePreKeyPublic"
    "PublicKey_verifyKey toy \<lparr>point = [9], signature = None\<rparr> alicePreKeyPublic"
    "identityKey bob = Some (toy_key 7)"
    "findPreKey toy bob bobPreKeyPublic = Inr \<lparr>secret = [11], publicKey = bobPreKeyPublic\<rparr>"
    by (simp_all add: findPreKey_def toy_defs)
  have v: "PrivateKey_sharedSecret toy (toy_key 2) bobPreKeyPublic = [25]"
    "PrivateKey_sharedSecret toy \<lparr>secret = [5], publicKey = alicePreKeyPublic\<rparr>
        \<lparr>point = [139], signature = None\<rparr> = [155]"
    "PrivateKey_sharedSecret toy \<lparr>secret = [5], publicKey = alicePreKeyPublic\<rparr> bobPreKeyPublic = [203]"
    "PrivateKey_sharedSecret toy \<lparr>secret = [11], publicKey = bobPreKeyPublic\<rparr>
        \<lparr>point = [9], signature = None\<rparr> = [25]"
    "PrivateKey_sharedSecret toy (toy_key 7) alicePreKeyPublic = [155]"
    "PrivateKey_sharedSecret toy \<lparr>secret = [11], publicKey = bobPreKeyPublic\<rparr> alicePreKeyPublic = [203]"
    by (simp_all add: toy_defs)
  from sharedSecret_concatenation[OF a(1-4)] a(5) v
  have s: "sharedSecret toy alice bobPublic None = Inr ([25] @ [155] @ [203])" by simp
  from sharedSecret_concatenation[OF b(1-4)] b(5) v
  have r: "sharedSecret toy bob alicePublic (Some bobPreKeyPublic) = Inr ([25] @ [155] @ [203])"
    by simp
  from s r v(1) show ?thesis by simp
qed

text \<open>
  C1, as the claim states it, fails: \<open>recipientPreKey\<close> is looked up among the pre-keys
  of the bundle that is called, so a recipient that names the sender's current pre-key
  finds no match. With a combine that is commutative on the keys of both generated
  bundles, the sender obtains a secret and the recipient's call throws.
\<close>

theorem sharedSecret_recipient_names_sender_pre_key_counterexample:
  "generate toy None StillPending (toy_key 2) (toy_key 5) = Inr alice \<and>
   generate toy None StillPending (toy_key 7) (toy_key 11) = Inr bob \<and>
   getPublicKeyBundle alice = Inr alicePublic \<and>
   getPublicKeyBundle bob = Inr bobPublic \<and>
   getCurrentPreKey alice = Some \<lparr>secret = [5], publicKey = alicePreKeyPublic\<rparr> \<and>
   dhCommutative toy (keysOf alice \<union> keysOf bob) \<and>
   sharedSecret toy alice bobPublic None = Inr [25, 155, 203] \<and>
   sharedSecret toy bob alicePublic (Some alicePreKeyPublic) = Inl PreKeyNotFound"
  by (simp add: generate_def addPreKey_def PrivateKeyBundle_new_def getPublicKeyBundle_def
      getCurrentPreKey_def dhCommutative_def keysOf_def sharedSecret_def findPreKey_def toy_defs)

text \<open>
  C1, amended. For any two generated bundles \<open>A\<close> and \<open>B\<close> whose advertised pre-key
  signatures verify, the sender's call \<open>A.sharedSecret(B.getPublicKeyBundle())\<close> and
  the recipient's call \<open>B.sharedSecret(A.getPublicKeyBundle(), p)\<close>, where \<open>p\<close> is the
  public half of the current pre-key of \<open>B\<close> (the pre-key of the recipient that the
  sender used), both return, and return the same bytes, when the Diffie-Hellman combine
  is commutative on the keys of the two bundles and a pre-key matches its own public
  half.
\<close>

theorem sharedSecret_commutes:
  assumes genA: "generate P walletA uA idA preA = Inr A"
    and genB: "generate P walletB uB idB preB = Inr B"
    and vA: "advertisedPreKeyVerifies P A"
    and vB: "advertisedPreKeyVerifies P B"
    and own: "\<forall>k\<in>set (preKeys B). PrivateKey_matches P k (publicKey k)"
    and comm: "dhCommutative P (keysOf A \<union> keysOf B)"
  shows "\<exists>pubA pubB curB s.
           getPublicKeyBundle A = Inr pubA \<and> getPublicKeyBundle B = Inr pubB \<and>
           getCurrentPreKey B = Some curB \<and>
           sharedSecret P A pubB None = Inr s \<and>
           sharedSecret P B pubA (Some (publicKey curB)) = Inr s"
proof -
  from generate_Inr[OF genA] obtain ia ka where A: "identityKey A = Some ia" "preKeys A = [ka]"
    by blast
  from generate_Inr[OF genB] obtain ib kb where B: "identityKey B = Some ib" "preKeys B = [kb]"
    by blast
  from vA A have va: "PublicKey_verifyKey P (publicKey ia) (publicKey ka)"
    by (simp add: advertisedPreKeyVerifies_def getCurrentPreKey_def)
  from vB B have vb: "PublicKey_verifyKey P (publicKey ib) (publicKey kb)"
    by (simp add: advertisedPreKeyVerifies_def getCurrentPreKey_def)
  from own B have o: "PrivateKey_matches P kb (publicKey kb)" by simp
  have pa: "getPublicKeyBundle A =
      Inr \<lparr>pub_identityKey = Some (publicKey ia), pub_preKey = Some (publicKey ka)\<rparr>"
    using A by (simp add: getPublicKeyBundle_def getCurrentPreKey_def)
  have pb: "getPublicKeyBundle B =
      Inr \<lparr>pub_identityKey = Some (publicKey ib), pub_preKey = Some (publicKey kb)\<rparr>"
    using B by (simp add: getPublicKeyBundle_def getCurrentPreKey_def)
  have cb: "getCurrentPreKey B = Some kb" using B by (simp add: getCurrentPreKey_def)
  from sharedSecret_agree[OF A B va vb o comm] pa pb cb show ?thesis by simp
qed

theorem sharedSecret_commutes_witness:
  "getPublicKeyBundle alice = Inr alicePublic \<and> getPublicKeyBundle bob = Inr bobPublic \<and>
   getCurrentPreKey bob = Some \<lparr>secret = [11], publicKey = bobPreKeyPublic\<rparr> \<and>
   sharedSecret toy alice bobPublic None =
     sharedSecret toy bob alicePublic (Some bobPreKeyPublic) \<and>
   sharedSecret toy alice bobPublic None = Inr [25, 155, 203]"
proof -
  have gA: "generate toy None StillPending (toy_key 2) (toy_key 5) = Inr alice"
    by (simp add: generate_def addPreKey_def PrivateKeyBundle_new_def toy_defs)
  have gB: "generate toy None StillPending (toy_key 7) (toy_key 11) = Inr bob"
    by (simp add: generate_def addPreKey_def PrivateKeyBundle_new_def toy_defs)
  have vA: "advertisedPreKeyVerifies toy alice"
    by (simp add: advertisedPreKeyVerifies_def getCurrentPreKey_def toy_defs)
  have vB: "advertisedPreKeyVerifies toy bob"
    by (simp add: advertisedPreKeyVerifies_def getCurrentPreKey_def toy_defs)
  have own: "\<forall>k\<in>set (preKeys bob). PrivateKey_matches toy k (publicKey k)"
    by (simp add: toy_defs)
  have comm: "dhCommutative toy (keysOf alice \<union> keysOf bob)"
    by (simp add: dhCommutative_def keysOf_def toy_defs)
  have p: "getPublicKeyBundle alice = Inr alicePublic" "getPublicKeyBundle bob = Inr bobPublic"
    "getCurrentPreKey bob = Some \<lparr>secret = [11], publicKey = bobPreKeyPublic\<rparr>"
    by (simp_all add: getPublicKeyBundle_def getCurrentPreKey_def toy_defs)
  have s: "sharedSecret toy alice bobPublic None = Inr [25, 155, 203]"
    by (simp add: sharedSecret_def getCurrentPreKey_def toy_defs)
  from sharedSecret_commutes[OF gA gB vA vB own comm] p
  have "sharedSecret toy alice bobPublic None =
     sharedSecret toy bob alicePublic (Some bobPreKeyPublic)" by auto
  with p s show ?thesis by simp
qed

section \<open>Persistence\<close>

text \<open>
  C8, as the claim states it, fails: the check of the pre-key list comes first, so a
  bundle with no identity key and no pre-key fails with \<open>MissingPreKeys\<close>, not with
  \<open>MissingIdentityKey\<close>.
\<close>

theorem encode_preconditions_counterexample:
  "identityKey (PrivateKeyBundle_new None None) = None \<and>
   encode toy_codec toy_wallet [1, 2, 3] (PrivateKeyBundle_new None None) = Inl MissingPreKeys"
  by (simp add: encode_def PrivateKeyBundle_new_def)

text \<open>
  C8, amended. \<open>encode\<close> fails with \<open>MissingPreKeys\<close> for every bundle whose \<open>preKeys\<close>
  is empty, and with \<open>MissingIdentityKey\<close> for every bundle with at least one pre-key
  whose identity key is absent; in both cases the outcome is the same for every signer,
  codec and random draw, so nothing is signed or encrypted. A bundle with a pre-key
  and an identity key passes both checks: when the signer and the encryption succeed,
  \<open>encode\<close> returns the written envelope.
\<close>

theorem encode_preconditions:
  "(preKeys b = [] \<longrightarrow>
      encode C wallet wPreKey b = Inl MissingPreKeys \<and>
      encode C' wallet' wPreKey' b = encode C wallet wPreKey b) \<and>
   (preKeys b \<noteq> [] \<and> identityKey b = None \<longrightarrow>
      encode C wallet wPreKey b = Inl MissingIdentityKey \<and>
      encode C' wallet' wPreKey' b = encode C wallet wPreKey b) \<and>
   (\<forall>idk sig ct. preKeys b \<noteq> [] \<and> identityKey b = Some idk \<and> wallet wPreKey = Inr sig \<and>
       encrypt C (proto_PrivateKeyBundle_encode C b) (hexToBytes C sig) = Inr ct \<longrightarrow>
      encode C wallet wPreKey b =
        Inr (proto_EncryptedPrivateKeyBundle_encode C
               \<lparr>walletPreKey = Some wPreKey, ciphertext = Some ct\<rparr>))"
proof (intro conjI allI impI)
  fix idk sig ct
  assume a: "preKeys b \<noteq> [] \<and> identityKey b = Some idk \<and> wallet wPreKey = Inr sig \<and>
       encrypt C (proto_PrivateKeyBundle_encode C b) (hexToBytes C sig) = Inr ct"
  then have eq: "\<lparr>identityKey = Some idk, preKeys = preKeys b\<rparr> = b" by simp
  from a show "encode C wallet wPreKey b =
        Inr (proto_EncryptedPrivateKeyBundle_encode C
               \<lparr>walletPreKey = Some wPreKey, ciphertext = Some ct\<rparr>)"
    by (simp add: encode_def eq)
qed (simp_all add: encode_def)

theorem encode_preconditions_witness:
  "encode toy_codec toy_wallet [1, 2, 3] emptyBundle = Inl MissingPreKeys \<and>
   encode toy_codec toy_wallet_rejects [] emptyBundle = Inl MissingPreKeys \<and>
   encode toy_codec toy_wallet [1, 2, 3] (alice\<lparr>identityKey := None\<rparr>) = Inl MissingIdentityKey \<and>
   encode toy_codec toy_wallet_rejects [] (alice\<lparr>identityKey := None\<rparr>) = Inl MissingIdentityKey \<and>
   encode toy_codec toy_wallet [1, 2, 3] alice = Inr aliceStored"
proof -
  have 1: "preKeys emptyBundle = []" by (simp add: emptyBundle_def PrivateKeyBundle_new_def)
  have 2: "preKeys (alice\<lparr>identityKey := None\<rparr>) \<noteq> [] \<and> identityKey (alice\<lparr>identityKey := None\<rparr>) = None"
    by (simp add: alice_def)
  have 3: "preKeys alice \<noteq> [] \<and> identityKey alice = Some (toy_key 2) \<and>
      toy_wallet [1, 2, 3] = Inr ''0x2a'' \<and>
      encrypt toy_codec (proto_PrivateKeyBundle_encode toy_codec alice)
         (hexToBytes toy_codec ''0x2a'') =
        Inr \<lparr>aes256GcmHkdfSha256 = Some \<lparr>hkdfSalt = [], gcmNonce = [],
              payload = [48, 120, 50, 97, 1, 2, 9, 0, 0, 0, 5, 243, 1, 9, 243]\<rparr>\<rparr>"
    by (simp add: toy_codec_defs toy_defs)
  have 4: "proto_EncryptedPrivateKeyBundle_encode toy_codec
      \<lparr>walletPreKey = Some [1, 2, 3], ciphertext = Some \<lparr>aes256GcmHkdfSha256 = Some \<lparr>hkdfSalt = [], gcmNonce = [],
              payload = [48, 120, 50, 97, 1, 2, 9, 0, 0, 0, 5, 243, 1, 9, 243]\<rparr>\<rparr>\<rparr> = aliceStored"
    by (simp add: toy_codec_defs)
  note t = encode_preconditions[where C = toy_codec and wallet = toy_wallet and wPreKey = "[1, 2, 3]"
      and C' = toy_codec and wallet' = toy_wallet_rejects and wPreKey' = "[]"]
  from t[of emptyBundle] 1
  have a: "encode toy_codec toy_wallet [1, 2, 3] emptyBundle = Inl MissingPreKeys"
    "encode toy_codec toy_wallet_rejects [] emptyBundle = Inl MissingPreKeys" by simp_all
  from t[of "alice\<lparr>identityKey := None\<rparr>"] 2
  have b: "encode toy_codec toy_wallet [1, 2, 3] (alice\<lparr>identityKey := None\<rparr>) = Inl MissingIdentityKey"
    "encode toy_codec toy_wallet_rejects [] (alice\<lparr>identityKey := None\<rparr>) = Inl MissingIdentityKey"
    by simp_all
  from t[of alice] 3 4
  have c: "encode toy_codec toy_wallet [1, 2, 3] alice = Inr aliceStored" by simp
  from a b c show ?thesis by simp
qed

text \<open>
  C4. For every bundle with at least one pre-key and a present identity key, and a
  signer that answers the wallet pre-key at decoding as it did at encoding, \<open>decode\<close>
  of what \<open>encode\<close> wrote succeeds and returns a bundle with the same identity key and
  the same pre-keys in the same order. The collaborators are assumed to round-trip:
  the protobuf readers read what the writers wrote, and the AEAD decrypts under the
  same secret what it encrypted.
\<close>

theorem encode_decode_roundtrip:
  assumes pre: "preKeys b \<noteq> []" "identityKey b = Some idk"
    and signer: "wallet wPreKey = Inr sig"
    and det: "wallet' wPreKey = wallet wPreKey"
    and inner: "bundleRoundTrip C b"
    and aead: "aeadRoundTrip C (proto_PrivateKeyBundle_encode C b) (hexToBytes C sig)"
    and outer: "\<forall>ct. encrypt C (proto_PrivateKeyBundle_encode C b) (hexToBytes C sig) = Inr ct \<longrightarrow>
                  envelopeRoundTrip C \<lparr>walletPreKey = Some wPreKey, ciphertext = Some ct\<rparr>"
  shows "\<exists>stored b'. encode C wallet wPreKey b = Inr stored \<and>
           decode C wallet' stored = Inr b' \<and>
           identityKey b' = identityKey b \<and> preKeys b' = preKeys b"
proof -
  let ?m = "proto_PrivateKeyBundle_encode C b" and ?s = "hexToBytes C sig"
  from aead obtain ct ct' where
    enc: "encrypt C ?m ?s = Inr ct" and
    var: "aes256GcmHkdfSha256 ct \<noteq> None" and
    new: "Ciphertext_new C ct = Inr ct'" and
    dec: "decrypt C ct' ?s = Inr ?m"
    by (auto simp: aeadRoundTrip_def split: sum.splits)
  let ?e = "\<lparr>walletPreKey = Some wPreKey, ciphertext = Some ct\<rparr>"
  let ?stored = "proto_EncryptedPrivateKeyBundle_encode C ?e"
  from pre have eq: "\<lparr>identityKey = Some idk, preKeys = preKeys b\<rparr> = b" by simp
  have e: "encode C wallet wPreKey b = Inr ?stored"
    using pre signer enc by (simp add: encode_def eq)
  from outer enc have rd: "proto_EncryptedPrivateKeyBundle_decode C ?stored = Inr ?e"
    by (simp add: envelopeRoundTrip_def)
  from inner have rb: "proto_PrivateKeyBundle_decode C ?m = Inr b"
    by (simp add: bundleRoundTrip_def)
  from var obtain a where a: "aes256GcmHkdfSha256 ct = Some a" by auto
  have d: "decode C wallet' ?stored =
      Inr (PrivateKeyBundle_new (Some (PrivateKey_new idk)) (Some (map PrivateKey_new (preKeys b))))"
    using pre signer det by (simp add: decode_def rd a new dec rb)
  from e d pre show ?thesis
    by (simp add: PrivateKeyBundle_new_def PrivateKey_new_id map_PrivateKey_new)
qed

theorem encode_decode_roundtrip_witness:
  "encode toy_codec toy_wallet [1, 2, 3] alice = Inr aliceStored \<and>
   decode toy_codec toy_wallet aliceStored = Inr alice"
proof -
  have pre: "preKeys alice \<noteq> []" "identityKey alice = Some (toy_key 2)"
    by (simp_all add: toy_defs)
  have signer: "toy_wallet [1, 2, 3] = Inr ''0x2a''" by (simp add: toy_wallet_def)
  have det: "toy_wallet [1, 2, 3] = toy_wallet [1, 2, 3]" by simp
  have inner: "bundleRoundTrip toy_codec alice"
    by (simp add: bundleRoundTrip_def toy_codec_defs alice_def)
  have aead: "aeadRoundTrip toy_codec (proto_PrivateKeyBundle_encode toy_codec alice)
                (hexToBytes toy_codec ''0x2a'')"
    by (simp add: aeadRoundTrip_def toy_codec_defs)
  have outer: "\<forall>ct. encrypt toy_codec (proto_PrivateKeyBundle_encode toy_codec alice)
                    (hexToBytes toy_codec ''0x2a'') = Inr ct \<longrightarrow>
                envelopeRoundTrip toy_codec \<lparr>walletPreKey = Some [1, 2, 3], ciphertext = Some ct\<rparr>"
    by (auto simp: envelopeRoundTrip_def toy_codec_defs)
  have e: "encode toy_codec toy_wallet [1, 2, 3] alice = Inr aliceStored"
    by (simp add: encode_def toy_codec_defs alice_def)
  from encode_decode_roundtrip[where wallet = toy_wallet and wallet' = toy_wallet
      and wPreKey = "[1, 2, 3]", OF pre signer det inner aead outer] e
  have "\<exists>b'. decode toy_codec toy_wallet aliceStored = Inr b' \<and>
          identityKey b' = identityKey alice \<and> preKeys b' = preKeys alice" by simp
  then have "decode toy_codec toy_wallet aliceStored = Inr alice" by auto
  with e show ?thesis by simp
qed

text \<open>
  C5, as the claim states it, fails: the checks are made one after the other, and the
  signer is called between the first and the second. An envelope with neither field
  fails with \<open>MissingWalletPreKey\<close>, not \<open>MissingCiphertext\<close>; an envelope with a wallet
  pre-key and no ciphertext fails with the signer's error when the signer rejects.
\<close>

theorem decode_checks_counterexample:
  "proto_EncryptedPrivateKeyBundle_decode toy_codec [0, 0] =
     Inr \<lparr>walletPreKey = None, ciphertext = None\<rparr> \<and>
   decode toy_codec toy_wallet [0, 0] = Inl MissingWalletPreKey \<and>
   proto_EncryptedPrivateKeyBundle_decode toy_codec [1, 1, 7, 0] =
     Inr \<lparr>walletPreKey = Some [7], ciphertext = None\<rparr> \<and>
   decode toy_codec toy_wallet_rejects [1, 1, 7, 0] = Inl SignerFailure"
  by (simp add: decode_def toy_codec_defs)

text \<open>
  C5, amended. On a parsed envelope \<open>decode\<close> fails with \<open>MissingWalletPreKey\<close> when
  \<open>walletPreKey\<close> is absent; otherwise, once the signer has signed it, with
  \<open>MissingCiphertext\<close> when the ciphertext or its AEAD variant is absent; otherwise,
  after successful decryption and parsing, with \<open>MissingIdentityKey\<close> when the inner
  bundle has no identity key, otherwise with \<open>MissingPreKeys\<close> when it has no pre-key,
  and otherwise it returns the inner bundle. It returns a bundle only when none of
  these conditions hold.
\<close>

theorem decode_checks:
  assumes parsed: "proto_EncryptedPrivateKeyBundle_decode C bs = Inr e"
  shows "(walletPreKey e = None \<longrightarrow> decode C wallet bs = Inl MissingWalletPreKey) \<and>
   (\<forall>w sig. walletPreKey e = Some w \<and> wallet w = Inr sig \<and>
        (ciphertext e = None \<or> ciphertext e = Some \<lparr>aes256GcmHkdfSha256 = None\<rparr>) \<longrightarrow>
      decode C wallet bs = Inl MissingCiphertext) \<and>
   (\<forall>w sig ct a ct' decrypted inner.
        walletPreKey e = Some w \<and> wallet w = Inr sig \<and> ciphertext e = Some ct \<and>
        aes256GcmHkdfSha256 ct = Some a \<and> Ciphertext_new C ct = Inr ct' \<and>
        decrypt C ct' (hexToBytes C sig) = Inr decrypted \<and>
        proto_PrivateKeyBundle_decode C decrypted = Inr inner \<longrightarrow>
      (identityKey inner = None \<longrightarrow> decode C wallet bs = Inl MissingIdentityKey) \<and>
      (identityKey inner \<noteq> None \<and> preKeys inner = [] \<longrightarrow>
         decode C wallet bs = Inl MissingPreKeys) \<and>
      (identityKey inner \<noteq> None \<and> preKeys inner \<noteq> [] \<longrightarrow>
         decode C wallet bs = Inr inner)) \<and>
   (\<forall>b. decode C wallet bs = Inr b \<longrightarrow>
      (\<exists>w sig ct a ct' decrypted.
         walletPreKey e = Some w \<and> wallet w = Inr sig \<and> ciphertext e = Some ct \<and>
         aes256GcmHkdfSha256 ct = Some a \<and> Ciphertext_new C ct = Inr ct' \<and>
         decrypt C ct' (hexToBytes C sig) = Inr decrypted \<and>
         proto_PrivateKeyBundle_decode C decrypted = Inr b) \<and>
      identityKey b \<noteq> None \<and> preKeys b \<noteq> [])"
proof (intro conjI allI impI)
  fix b assume r: "decode C wallet bs = Inr b"
  have copy: "\<And>idk inner. identityKey inner = Some idk \<Longrightarrow>
      PrivateKeyBundle_new (Some (PrivateKey_new idk)) (Some (map PrivateKey_new (preKeys inner)))
        = inner"
    by (simp add: PrivateKeyBundle_new_def PrivateKey_new_id map_PrivateKey_new)
  from r parsed show "\<exists>w sig ct a ct' decrypted.
         walletPreKey e = Some w \<and> wallet w = Inr sig \<and> ciphertext e = Some ct \<and>
         aes256GcmHkdfSha256 ct = Some a \<and> Ciphertext_new C ct = Inr ct' \<and>
         decrypt C ct' (hexToBytes C sig) = Inr decrypted \<and>
         proto_PrivateKeyBundle_decode C decrypted = Inr b"
    by (auto simp: decode_def copy split: option.splits sum.splits if_splits)
  from r parsed show "identityKey b \<noteq> None"
    by (auto simp: decode_def PrivateKeyBundle_new_def split: option.splits sum.splits if_splits)
  from r parsed show "preKeys b \<noteq> []"
    by (auto simp: decode_def PrivateKeyBundle_new_def split: option.splits sum.splits if_splits)
next
  fix w sig ct a ct' decrypted inner
  assume h: "walletPreKey e = Some w \<and> wallet w = Inr sig \<and> ciphertext e = Some ct \<and>
        aes256GcmHkdfSha256 ct = Some a \<and> Ciphertext_new C ct = Inr ct' \<and>
        decrypt C ct' (hexToBytes C sig) = Inr decrypted \<and>
        proto_PrivateKeyBundle_decode C decrypted = Inr inner"
  {
    assume "identityKey inner = None"
    with h parsed show "decode C wallet bs = Inl MissingIdentityKey"
      by (simp add: decode_def)
  }
  {
    assume "identityKey inner \<noteq> None \<and> preKeys inner = []"
    with h parsed show "decode C wallet bs = Inl MissingPreKeys"
      by (auto simp: decode_def)
  }
  {
    assume i: "identityKey inner \<noteq> None \<and> preKeys inner \<noteq> []"
    then obtain idk where idk: "identityKey inner = Some idk" by auto
    have "PrivateKeyBundle_new (Some (PrivateKey_new idk)) (Some (map PrivateKey_new (preKeys inner)))
        = inner"
      using idk by (simp add: PrivateKeyBundle_new_def PrivateKey_new_id map_PrivateKey_new)
    with h parsed i idk show "decode C wallet bs = Inr inner"
      by (simp add: decode_def)
  }
next
  fix w sig
  assume "walletPreKey e = Some w \<and> wallet w = Inr sig \<and>
        (ciphertext e = None \<or> ciphertext e = Some \<lparr>aes256GcmHkdfSha256 = None\<rparr>)"
  with parsed show "decode C wallet bs = Inl MissingCiphertext"
    by (auto simp: decode_def)
next
  assume "walletPreKey e = None"
  with parsed show "decode C wallet bs = Inl MissingWalletPreKey"
    by (simp add: decode_def)
qed

theorem decode_checks_witness:
  "decode toy_codec toy_wallet [0, 2, 9] = Inl MissingWalletPreKey \<and>
   decode toy_codec toy_wallet [1, 1, 7, 0] = Inl MissingCiphertext \<and>
   decode toy_codec toy_wallet [1, 1, 7, 1] = Inl MissingCiphertext \<and>
   decode toy_codec toy_wallet [1, 1, 7, 2, 48, 120, 50, 97, 0, 5, 243, 1, 9, 243]
     = Inl MissingIdentityKey \<and>
   decode toy_codec toy_wallet [1, 1, 7, 2, 48, 120, 50, 97, 1, 2, 9, 0, 0, 0]
     = Inl MissingPreKeys \<and>
   decode toy_codec toy_wallet aliceStored = Inr alice \<and>
   identityKey alice \<noteq> None \<and> preKeys alice \<noteq> []"
proof -
  let ?a1 = "\<lparr>hkdfSalt = [], gcmNonce = [], payload = [48, 120, 50, 97, 0, 5, 243, 1, 9, 243]\<rparr>"
  let ?a2 = "\<lparr>hkdfSalt = [], gcmNonce = [], payload = [48, 120, 50, 97, 1, 2, 9, 0, 0, 0]\<rparr>"
  let ?a3 = "\<lparr>hkdfSalt = [], gcmNonce = [],
              payload = [48, 120, 50, 97, 1, 2, 9, 0, 0, 0, 5, 243, 1, 9, 243]\<rparr>"
  let ?k = "\<lparr>secret = [5], publicKey = alicePreKeyPublic\<rparr>"
  have p1: "proto_EncryptedPrivateKeyBundle_decode toy_codec [0, 2, 9] =
      Inr \<lparr>walletPreKey = None, ciphertext = Some \<lparr>aes256GcmHkdfSha256 =
        Some \<lparr>hkdfSalt = [], gcmNonce = [], payload = [9]\<rparr>\<rparr>\<rparr>"
    by (simp add: toy_codec_defs)
  have p2: "proto_EncryptedPrivateKeyBundle_decode toy_codec [1, 1, 7, 0] =
      Inr \<lparr>walletPreKey = Some [7], ciphertext = None\<rparr>"
    by (simp add: toy_codec_defs)
  have p3: "proto_EncryptedPrivateKeyBundle_decode toy_codec [1, 1, 7, 1] =
      Inr \<lparr>walletPreKey = Some [7], ciphertext = Some \<lparr>aes256GcmHkdfSha256 = None\<rparr>\<rparr>"
    by (simp add: toy_codec_defs)
  have p4: "proto_EncryptedPrivateKeyBundle_decode toy_codec
        [1, 1, 7, 2, 48, 120, 50, 97, 0, 5, 243, 1, 9, 243] =
      Inr \<lparr>walletPreKey = Some [7], ciphertext = Some \<lparr>aes256GcmHkdfSha256 = Some ?a1\<rparr>\<rparr>"
    by (simp add: toy_codec_defs)
  have p5: "proto_EncryptedPrivateKeyBundle_decode toy_codec
        [1, 1, 7, 2, 48, 120, 50, 97, 1, 2, 9, 0, 0, 0] =
      Inr \<lparr>walletPreKey = Some [7], ciphertext = Some \<lparr>aes256GcmHkdfSha256 = Some ?a2\<rparr>\<rparr>"
    by (simp add: toy_codec_defs)
  have p6: "proto_EncryptedPrivateKeyBundle_decode toy_codec aliceStored =
      Inr \<lparr>walletPreKey = Some [1, 2, 3], ciphertext = Some \<lparr>aes256GcmHkdfSha256 = Some ?a3\<rparr>\<rparr>"
    by (simp add: toy_codec_defs)
  have w: "\<And>m. toy_wallet m = Inr ''0x2a''" by (simp add: toy_wallet_def)
  have c: "\<And>ct. Ciphertext_new toy_codec ct = Inr ct" by (simp add: toy_codec_def)
  have d4: "decrypt toy_codec \<lparr>aes256GcmHkdfSha256 = Some ?a1\<rparr> (hexToBytes toy_codec ''0x2a'')
      = Inr [0, 5, 243, 1, 9, 243]"
    "proto_PrivateKeyBundle_decode toy_codec [0, 5, 243, 1, 9, 243]
      = Inr \<lparr>identityKey = None, preKeys = [?k]\<rparr>"
    by (simp_all add: toy_codec_defs toy_defs)
  have d5: "decrypt toy_codec \<lparr>aes256GcmHkdfSha256 = Some ?a2\<rparr> (hexToBytes toy_codec ''0x2a'')
      = Inr [1, 2, 9, 0, 0, 0]"
    "proto_PrivateKeyBundle_decode toy_codec [1, 2, 9, 0, 0, 0]
      = Inr \<lparr>identityKey = Some (toy_key 2), preKeys = []\<rparr>"
    by (simp_all add: toy_codec_defs toy_defs)
  have d6: "decrypt toy_codec \<lparr>aes256GcmHkdfSha256 = Some ?a3\<rparr> (hexToBytes toy_codec ''0x2a'')
      = Inr [1, 2, 9, 0, 0, 0, 5, 243, 1, 9, 243]"
    "proto_PrivateKeyBundle_decode toy_codec [1, 2, 9, 0, 0, 0, 5, 243, 1, 9, 243] = Inr alice"
    by (simp_all add: toy_codec_defs toy_defs)
  from decode_checks[OF p1, of toy_wallet]
  have r1: "decode toy_codec toy_wallet [0, 2, 9] = Inl MissingWalletPreKey" by simp
  from decode_checks[OF p2, of toy_wallet] w
  have r2: "decode toy_codec toy_wallet [1, 1, 7, 0] = Inl MissingCiphertext" by simp
  from decode_checks[OF p3, of toy_wallet] w
  have r3: "decode toy_codec toy_wallet [1, 1, 7, 1] = Inl MissingCiphertext" by simp
  from decode_checks[OF p4, of toy_wallet] w c d4
  have r4: "decode toy_codec toy_wallet [1, 1, 7, 2, 48, 120, 50, 97, 0, 5, 243, 1, 9, 243]
     = Inl MissingIdentityKey" by simp
  from decode_checks[OF p5, of toy_wallet] w c d5
  have r5: "decode toy_codec toy_wallet [1, 1, 7, 2, 48, 120, 50, 97, 1, 2, 9, 0, 0, 0]
     = Inl MissingPreKeys" by simp
  have n: "identityKey alice \<noteq> None \<and> preKeys alice \<noteq> []" by (simp add: alice_def)
  from decode_checks[OF p6, of toy_wallet] w c d6 n
  have r6: "decode toy_codec toy_wallet aliceStored = Inr alice" by simp
  from r1 r2 r3 r4 r5 r6 n show ?thesis by simp
qed

end
